theory Spec2Isabelle
  imports Main "HOL-Library.AList" "HOL-Library.Sublist"
begin

section \<open>Python values used by the bot\<close>

text \<open>
  A Python \<open>str\<close> is a \<^typ>\<open>string\<close>: the list of the bytes of its UTF-8 encoding, so
  that equality and the substring test \<open>kw in s\<close> (\<^const>\<open>sublist\<close>) are those of Python.
  A Python \<open>dict\<close> with string keys is an association list in insertion order:
  \<open>k in d\<close> is \<open>map_of d k \<noteq> None\<close>, \<open>d[k]\<close> and \<open>d.get(k)\<close> are \<open>map_of d k\<close>,
  \<open>d[k] = v\<close> is \<open>AList.update k v d\<close> (it overwrites in place, or appends a new key),
  \<open>del d[k]\<close> is \<open>AList.delete k d\<close> and \<open>list(d.keys())\<close> is \<open>map fst d\<close>.
\<close>

type_synonym dict = "(string \<times> string) list"

text \<open>
  \<open>str.lower\<close> and \<open>str.capitalize\<close> on ASCII text: a letter changes case by its bit of
  weight 32 (\<open>A\<close> is 65, \<open>a\<close> is 97). The source applies \<open>capitalize\<close>, and \<open>lower\<close> inside
  \<open>get_scenario_for_value\<close>, to its own ASCII keywords only; on these the functions below
  are exactly Python's.
\<close>

definition lower_char :: "char \<Rightarrow> char" where
  "lower_char c =
     (case c of Char b0 b1 b2 b3 b4 b5 b6 b7 \<Rightarrow>
        if 65 \<le> (of_char c :: nat) \<and> (of_char c :: nat) \<le> 90
        then Char b0 b1 b2 b3 b4 True b6 b7 else c)"

definition upper_char :: "char \<Rightarrow> char" where
  "upper_char c =
     (case c of Char b0 b1 b2 b3 b4 b5 b6 b7 \<Rightarrow>
        if 97 \<le> (of_char c :: nat) \<and> (of_char c :: nat) \<le> 122
        then Char b0 b1 b2 b3 b4 False b6 b7 else c)"

definition ascii_lower :: "string \<Rightarrow> string" where
  "ascii_lower s = map lower_char s"

fun capitalize :: "string \<Rightarrow> string" where
  "capitalize [] = []"
| "capitalize (c # cs) = upper_char c # map lower_char cs"

text \<open>\<open>sep.join(xs)\<close>\<close>

fun join :: "string \<Rightarrow> string list \<Rightarrow> string" where
  "join sep [] = []"
| "join sep [x] = x"
| "join sep (x # y # ys) = x @ sep @ join sep (y # ys)"

text \<open>The exceptions that reach the \<open>except\<close> clause of the view.\<close>

datatype exn = JSONDecodeError | AttributeError | TypeError | ValueError

text \<open>
  What the program takes from outside the repository, as parameters: the spaCy pipeline
  \<open>self.nlp\<close> and \<open>str.lower\<close> on text that comes from the user (Unicode case mapping).
  Called on a text, the pipeline raises or returns a document. \<open>nlp_raises\<close> gives the
  exception when it raises: spaCy refuses a text longer than its \<open>max_length\<close>
  (1,000,000 characters unless configured otherwise) and a text that cannot be encoded,
  such as one with a lone surrogate. \<open>nlp\<close> gives the texts of the tokens of the document
  when it returns. A \<open>spacy.Doc\<close> keeps the text it was made from (\<open>doc.text\<close>) beside
  its tokens.
\<close>

record runtime =
  nlp :: "string \<Rightarrow> string list"
  nlp_raises :: "string \<Rightarrow> exn option"
  str_lower :: "string \<Rightarrow> string"

record doc =
  doc_text :: string
  doc_tokens :: "string list"

text \<open>Truthiness of an \<open>Optional[str]\<close>: \<open>None\<close> and the empty string are false.\<close>

fun truthy :: "string option \<Rightarrow> bool" where
  "truthy None = False"
| "truthy (Some s) = (s \<noteq> [])"

section \<open>\<open>nlp_manager.py\<close>: class \<open>NLPManager\<close>\<close>

definition process_input :: "runtime \<Rightarrow> string \<Rightarrow> doc" where
  "process_input rt user_input = \<lparr>doc_text = user_input, doc_tokens = nlp rt user_input\<rparr>"

definition greetings :: "string list" where
  "greetings = [''hi'', ''hello'', ''hey'']"

definition gratitude_words :: "string list" where
  "gratitude_words = [''thanks'', ''thank'', ''thank you'']"

text \<open>
  The loop \<open>for token in doc\<close> of \<open>analyze_greeting\<close>; the second test of its body ranges
  over the whole document again (\<open>any(... for token in doc)\<close>), whatever the current token.
\<close>

fun greeting_loop :: "runtime \<Rightarrow> doc \<Rightarrow> string list \<Rightarrow> string option" where
  "greeting_loop rt d [] = None"
| "greeting_loop rt d (token # rest) =
     (if str_lower rt token \<in> set greetings
      then Some ''Hello there! How can I assist you today?''
      else if list_ex (\<lambda>token. str_lower rt token \<in> set gratitude_words) (doc_tokens d)
      then Some ''You're welcome!''
      else greeting_loop rt d rest)"

definition analyze_greeting :: "runtime \<Rightarrow> doc \<Rightarrow> string option" where
  "analyze_greeting rt d = greeting_loop rt d (doc_tokens d)"

definition mission_keywords :: "string list" where
  "mission_keywords = [''mission'']"

definition vision_keywords :: "string list" where
  "vision_keywords = [''vision'']"

definition analyze_mission_vision :: "runtime \<Rightarrow> doc \<Rightarrow> string option" where
  "analyze_mission_vision rt d =
     (if list_ex (\<lambda>keyword. sublist keyword (str_lower rt (doc_text d))) mission_keywords
      then Some ''To propel Africa's prosperity by connecting its people, cultures and markets.''
      else if list_ex (\<lambda>keyword. sublist keyword (str_lower rt (doc_text d))) vision_keywords
      then Some ''To be Africa's preferred and sustainable Aviation group.''
      else None)"

definition scenarios :: dict where
  "scenarios =
     [(''safety'', '' Safety is the foundation of everything we do.''),
      (''customer obsession'',
       '' We commit to creating positive memorable experiences for our customers.''),
      (''integrity'',
       '' We shall be ethical and trustworthy in all our engagements and we shall treat each person with respect.''),
      (''accountability'',
       '' We take initiative and responsibility for our actions, decisions and results.'')]"

definition default_message :: string where
  "default_message = ''I don't have an answer for that, sorry.''"

definition get_scenario_for_value :: "string \<Rightarrow> string" where
  "get_scenario_for_value v =
     (let scenario = (case map_of scenarios (ascii_lower v) of
                        Some s \<Rightarrow> s
                      | None \<Rightarrow> default_message)
      in if scenario \<noteq> [] then scenario else default_message)"

definition scia_keywords :: "string list" where
  "scia_keywords = [''safety'', ''customer obsession'', ''integrity'', ''accountability'']"

definition values_keyword :: string where
  "values_keyword = ''values''"

text \<open>The loop \<open>for keyword in scia_keywords\<close> of \<open>analyze_scia_values\<close>.\<close>

fun scia_loop :: "runtime \<Rightarrow> doc \<Rightarrow> string list \<Rightarrow> string option" where
  "scia_loop rt d [] = None"
| "scia_loop rt d (keyword # rest) =
     (if sublist keyword (str_lower rt (doc_text d))
      then Some (capitalize keyword @ '': '' @ get_scenario_for_value keyword)
      else scia_loop rt d rest)"

definition analyze_scia_values :: "runtime \<Rightarrow> doc \<Rightarrow> string option" where
  "analyze_scia_values rt d =
     (if sublist values_keyword (str_lower rt (doc_text d))
      then Some (join '', '' (map capitalize scia_keywords))
      else scia_loop rt d scia_keywords)"

section \<open>\<open>bot_manager.py\<close>: classes \<open>RuleBasedBot\<close> and \<open>Admin\<close>\<close>

text \<open>
  The state is the bot's \<open>db\<close> and the \<open>unanswered_queries\<close> of the one \<open>Admin\<close> that works
  with it, and a history of what happened (newest first), which the program does not
  keep: \<open>ForwardAttempt q\<close> when \<open>forward_query_to_admin\<close> starts to notify the
  administrator about \<open>q\<close>, \<open>Answered q\<close> and \<open>Resolved q\<close> when \<open>provide_answer\<close> and
  \<open>mark_resolved\<close> are called for \<open>q\<close>.
\<close>

datatype event = ForwardAttempt string | Answered string | Resolved string

record world =
  db :: dict
  unanswered_queries :: dict
  history :: "event list"

definition init_world :: world where
  "init_world = \<lparr>db = [], unanswered_queries = [], history = []\<rparr>"

text \<open>
  What the mail session of one call does: it goes through (\<open>Delivered\<close>), or something
  between building the message and closing the connection raises (\<open>Raises\<close>).
\<close>

datatype smtp = Delivered | Raises

definition placeholder :: string where
  "placeholder = ''Forwarded to admin's email. Waiting for response.''"

definition forward_error :: string where
  "forward_error = ''Error forwarding to admin. Please try again.''"

text \<open>The apology ends in a space and U+1F614, here the four bytes of its UTF-8 encoding.\<close>

definition apology :: string where
  "apology = ''I don't have an answer for that, sorry. '' @ [CHR 0xF0, CHR 0x9F, CHR 0x98, CHR 0x94]"

definition add_to_db :: "string \<Rightarrow> string \<Rightarrow> world \<Rightarrow> world" where
  "add_to_db q a st = st\<lparr>db := AList.update q a (db st)\<rparr>"

definition provide_answer :: "string \<Rightarrow> string \<Rightarrow> world \<Rightarrow> world" where
  "provide_answer q a st =
     (let st1 = add_to_db q a st
      in st1\<lparr>unanswered_queries := AList.update q a (unanswered_queries st1),
             history := Answered q # history st1\<rparr>)"

definition has_unanswered_queries :: "world \<Rightarrow> bool" where
  "has_unanswered_queries st = (unanswered_queries st \<noteq> [])"

definition get_response :: "string \<Rightarrow> world \<Rightarrow> string" where
  "get_response q st =
     (case map_of (unanswered_queries st) q of Some a \<Rightarrow> a | None \<Rightarrow> default_message)"

definition get_unanswered_queries :: "world \<Rightarrow> string list" where
  "get_unanswered_queries st = map fst (unanswered_queries st)"

definition mark_resolved :: "string \<Rightarrow> world \<Rightarrow> world" where
  "mark_resolved q st =
     (let st1 = st\<lparr>history := Resolved q # history st\<rparr>
      in if map_of (unanswered_queries st1) q \<noteq> None
         then st1\<lparr>unanswered_queries := AList.delete q (unanswered_queries st1)\<rparr>
         else st1)"

text \<open>
  The body of the \<open>try\<close> of \<open>forward_query_to_admin\<close>: \<open>Inr\<close> when it runs to its end,
  \<open>Inl\<close> with the state reached when it raises.
\<close>

definition forward_try :: "string \<Rightarrow> smtp \<Rightarrow> world \<Rightarrow> world + world" where
  "forward_try q m st =
     (if map_of (unanswered_queries st) q = None
      then (let st1 = st\<lparr>history := ForwardAttempt q # history st\<rparr>
            in case m of
                 Raises \<Rightarrow> Inl st1
               | Delivered \<Rightarrow>
                   Inr (st1\<lparr>unanswered_queries :=
                              AList.update q placeholder (unanswered_queries st1)\<rparr>))
      else Inr st)"

text \<open>The \<open>except Exception\<close> clause catches whatever the body raised.\<close>

definition forward_query_to_admin :: "string \<Rightarrow> smtp \<Rightarrow> world \<Rightarrow> world" where
  "forward_query_to_admin q m st =
     (case forward_try q m st of
        Inr st' \<Rightarrow> st'
      | Inl st' \<Rightarrow>
          st'\<lparr>unanswered_queries := AList.update q forward_error (unanswered_queries st')\<rparr>)"

text \<open>
  \<open>respond\<close>, for a call in which \<open>self.nlp\<close> returns (it is called only when
  \<open>user_input\<close> is not a key of \<open>db\<close>): the answer and the new state.
\<close>

definition respond :: "runtime \<Rightarrow> smtp \<Rightarrow> string \<Rightarrow> world \<Rightarrow> string \<times> world" where
  "respond rt m user_input st =
     (case map_of (db st) user_input of
        Some a \<Rightarrow> (a, st)
      | None \<Rightarrow>
          (let nlp_doc = process_input rt user_input;
               greeting_response = analyze_greeting rt nlp_doc;
               mission_vision_response = analyze_mission_vision rt nlp_doc;
               scia_values_response = analyze_scia_values rt nlp_doc
           in if truthy greeting_response then (the greeting_response, st)
              else if truthy mission_vision_response then (the mission_vision_response, st)
              else if truthy scia_values_response then (the scia_values_response, st)
              else (let st1 = add_to_db user_input placeholder st;
                        st2 = forward_query_to_admin user_input m st1
                    in (apology, st2))))"

text \<open>
  Any call of \<open>respond\<close> on a string: when the string is not a key of \<open>db\<close> and
  \<open>self.nlp\<close> raises, the exception leaves \<open>respond\<close> before anything is written.
\<close>

definition respond_call :: "runtime \<Rightarrow> smtp \<Rightarrow> string \<Rightarrow> world \<Rightarrow> exn + string \<times> world" where
  "respond_call rt m user_input st =
     (if map_of (db st) user_input = None
      then (case nlp_raises rt user_input of
              Some e \<Rightarrow> Inl e
            | None \<Rightarrow> Inr (respond rt m user_input st))
      else Inr (respond rt m user_input st))"

section \<open>\<open>views.py\<close>: \<open>bot_view\<close>\<close>

text \<open>
  What \<open>json.loads\<close> returns. An object is the \<open>dict\<close> that \<open>json.loads\<close> built, so
  \<open>data.get(k)\<close> is \<open>map_of\<close> on it; the value of a number plays no part here.
\<close>

datatype json =
    JNull
  | JBool bool
  | JNum int
  | JStr string
  | JArr "json list"
  | JObj "(string \<times> json) list"

text \<open>
  A request is its method and what \<open>json.loads(request.body)\<close> gives, \<open>None\<close> when it
  raises.
\<close>

record request =
  req_method :: string
  req_body :: "json option"

text \<open>
  The three bodies the view sends: \<open>{'bot_response': r}\<close>, \<open>{'error': msg}\<close> with a fixed
  message, and \<open>{'error': str(e)}\<close> for a caught exception \<open>e\<close>.
\<close>

datatype payload = bot_response string | error string | error_of exn

datatype response = JsonResponse payload nat

text \<open>
  \<open>bot_instance.respond\<close> on whatever value the field holds. A string is a call of
  \<open>respond\<close> as above. A list or an object is unhashable, and \<open>user_input in self.db\<close>
  raises \<open>TypeError\<close>. Any other value is not a key of \<open>db\<close>, whose keys are strings, and
  the spaCy pipeline refuses what is not a text.
\<close>

fun respond_value :: "runtime \<Rightarrow> smtp \<Rightarrow> json \<Rightarrow> world \<Rightarrow> exn + string \<times> world" where
  "respond_value rt m (JStr s) st = respond_call rt m s st"
| "respond_value rt m (JArr xs) st = Inl TypeError"
| "respond_value rt m (JObj kvs) st = Inl TypeError"
| "respond_value rt m v st = Inl ValueError"

text \<open>The \<open>try\<close> of \<open>bot_view\<close>, for a POST request.\<close>

definition bot_view_try :: "runtime \<Rightarrow> smtp \<Rightarrow> request \<Rightarrow> world \<Rightarrow> exn + response \<times> world" where
  "bot_view_try rt m req st =
     (case req_body req of
        None \<Rightarrow> Inl JSONDecodeError
      | Some (JObj data) \<Rightarrow>
          (case map_of data ''user_input'' of
             None \<Rightarrow> Inr (JsonResponse (error ''User input is required'') 400, st)
           | Some JNull \<Rightarrow> Inr (JsonResponse (error ''User input is required'') 400, st)
           | Some user_input \<Rightarrow>
               (case respond_value rt m user_input st of
                  Inl e \<Rightarrow> Inl e
                | Inr (bot_resp, st') \<Rightarrow> Inr (JsonResponse (bot_response bot_resp) 200, st')))
      | Some _ \<Rightarrow> Inl AttributeError)"

definition bot_view :: "runtime \<Rightarrow> smtp \<Rightarrow> request \<Rightarrow> world \<Rightarrow> response \<times> world" where
  "bot_view rt m req st =
     (if req_method req = ''POST''
      then (case bot_view_try rt m req st of
              Inr r \<Rightarrow> r
            | Inl e \<Rightarrow> (JsonResponse (error_of e) 500, st))
      else (JsonResponse (error ''Only POST requests are allowed.'') 400, st))"

section \<open>Sequences of calls\<close>

text \<open>
  The public methods that change the state, and running a sequence of calls. A call of
  \<open>respond\<close> in which \<open>self.nlp\<close> raises leaves the state as it was, so a sequence of
  calls with such a call is the sequence without it.
\<close>

datatype op =
    Respond string smtp
  | Forward string smtp
  | ProvideAnswer string string
  | MarkResolved string
  | AddToDb string string

fun step :: "runtime \<Rightarrow> op \<Rightarrow> world \<Rightarrow> world" where
  "step rt (Respond q m) st = snd (respond rt m q st)"
| "step rt (Forward q m) st = forward_query_to_admin q m st"
| "step rt (ProvideAnswer q a) st = provide_answer q a st"
| "step rt (MarkResolved q) st = mark_resolved q st"
| "step rt (AddToDb q a) st = add_to_db q a st"

fun run :: "runtime \<Rightarrow> op list \<Rightarrow> world \<Rightarrow> world" where
  "run rt [] st = st"
| "run rt (x # xs) st = run rt xs (step rt x st)"

text \<open>The operations that write the \<open>db\<close> entry of \<open>q\<close> when it has one.\<close>

fun overwrites :: "string \<Rightarrow> op \<Rightarrow> bool" where
  "overwrites q (ProvideAnswer q' a) = (q' = q)"
| "overwrites q (AddToDb q' a) = (q' = q)"
| "overwrites q _ = False"

text \<open>The questions for which a notification was attempted, newest first.\<close>

fun attempts :: "event list \<Rightarrow> string list" where
  "attempts [] = []"
| "attempts (ForwardAttempt q # es) = q # attempts es"
| "attempts (_ # es) = attempts es"

text \<open>
  \<open>outstanding q h\<close>: in the history \<open>h\<close> the question \<open>q\<close> has been forwarded and not
  marked resolved since. \<open>tracked q h\<close>: it has been forwarded or given an answer by
  \<open>provide_answer\<close>, and not marked resolved since.
\<close>

fun outstanding :: "string \<Rightarrow> event list \<Rightarrow> bool" where
  "outstanding q [] = False"
| "outstanding q (ForwardAttempt q' # es) = (q' = q \<or> outstanding q es)"
| "outstanding q (Resolved q' # es) = (q' \<noteq> q \<and> outstanding q es)"
| "outstanding q (Answered q' # es) = outstanding q es"

fun tracked :: "string \<Rightarrow> event list \<Rightarrow> bool" where
  "tracked q [] = False"
| "tracked q (ForwardAttempt q' # es) = (q' = q \<or> tracked q es)"
| "tracked q (Resolved q' # es) = (q' \<noteq> q \<and> tracked q es)"
| "tracked q (Answered q' # es) = (q' = q \<or> tracked q es)"

definition has_record :: "string \<Rightarrow> world \<Rightarrow> bool" where
  "has_record q st = (map_of (unanswered_queries st) q \<noteq> None)"

text \<open>An association list is a dictionary when no key occurs twice.\<close>

definition well_formed :: "world \<Rightarrow> bool" where
  "well_formed st =
     (distinct (map fst (db st)) \<and> distinct (map fst (unanswered_queries st)))"

section \<open>An instance of the parameters\<close>

text \<open>
  For evaluating the program on examples: a tokenizer that splits at spaces and refuses a
  text of more than 1,000,000 characters, and lower-casing of the ASCII letters.
\<close>

fun split_spaces :: "string \<Rightarrow> string \<Rightarrow> string list" where
  "split_spaces acc [] = (if acc = [] then [] else [rev acc])"
| "split_spaces acc (c # cs) =
     (if c = CHR '' ''
      then (if acc = [] then split_spaces [] cs else rev acc # split_spaces [] cs)
      else split_spaces (c # acc) cs)"

definition ascii_runtime :: runtime where
  "ascii_runtime =
     \<lparr>nlp = split_spaces [],
      nlp_raises = (\<lambda>s. if 1000000 < int (length s) then Some ValueError else None),
      str_lower = ascii_lower\<rparr>"

section \<open>Facts about the operations\<close>

lemma respond_hit: "map_of (db st) q = Some a \<Longrightarrow> respond rt m q st = (a, st)"
  by (simp add: respond_def)

lemma respond_escalate:
  assumes "map_of (db st) q = None"
    and "\<not> truthy (analyze_greeting rt (process_input rt q))"
    and "\<not> truthy (analyze_mission_vision rt (process_input rt q))"
    and "\<not> truthy (analyze_scia_values rt (process_input rt q))"
  shows "respond rt m q st = (apology, forward_query_to_admin q m (add_to_db q placeholder st))"
  using assms by (simp add: respond_def Let_def)

lemma forward_unfold:
  "forward_query_to_admin q m st =
     (if has_record q st then st
      else st\<lparr>history := ForwardAttempt q # history st,
              unanswered_queries :=
                AList.update q (case m of Delivered \<Rightarrow> placeholder | Raises \<Rightarrow> forward_error)
                  (unanswered_queries st)\<rparr>)"
  by (cases m) (simp_all add: forward_query_to_admin_def forward_try_def has_record_def Let_def)

lemma db_add_to_db:
  "map_of (db (add_to_db q a st)) q' = (if q' = q then Some a else map_of (db st) q')"
  by (simp add: add_to_db_def update_conv')

lemma other_add_to_db [simp]:
  "unanswered_queries (add_to_db q a st) = unanswered_queries st"
  "history (add_to_db q a st) = history st"
  by (simp_all add: add_to_db_def)

lemma has_record_add_to_db [simp]: "has_record q' (add_to_db q a st) = has_record q' st"
  by (simp add: has_record_def)

lemma db_forward [simp]: "db (forward_query_to_admin q m st) = db st"
  by (simp add: forward_unfold)

lemma db_mark_resolved [simp]: "db (mark_resolved q st) = db st"
  by (simp add: mark_resolved_def Let_def)

lemma db_provide_answer:
  "map_of (db (provide_answer q a st)) q' = (if q' = q then Some a else map_of (db st) q')"
  by (simp add: provide_answer_def Let_def db_add_to_db)

lemma keys_mark_resolved: "q \<notin> set (get_unanswered_queries (mark_resolved q st))"
proof (cases "map_of (unanswered_queries st) q")
  case None
  then show ?thesis
    by (simp add: mark_resolved_def get_unanswered_queries_def Let_def map_of_eq_None_iff)
next
  case (Some a)
  then show ?thesis
    using delete_notin_dom [of q "unanswered_queries st"]
    by (simp add: mark_resolved_def get_unanswered_queries_def Let_def)
qed

text \<open>The operations keep the two association lists dictionaries.\<close>

lemma step_well_formed:
  assumes "well_formed st"
  shows "well_formed (step rt x st)"
proof (cases x)
  case (Respond q m)
  with assms show ?thesis
    by (simp add: well_formed_def respond_def Let_def forward_unfold add_to_db_def
        distinct_update split: option.splits)
next
  case (Forward q m)
  with assms show ?thesis
    by (simp add: well_formed_def forward_unfold distinct_update)
next
  case (ProvideAnswer q a)
  with assms show ?thesis
    by (simp add: well_formed_def provide_answer_def add_to_db_def Let_def distinct_update)
next
  case (MarkResolved q)
  with assms show ?thesis
    by (simp add: well_formed_def mark_resolved_def Let_def distinct_delete)
next
  case (AddToDb q a)
  with assms show ?thesis
    by (simp add: well_formed_def add_to_db_def distinct_update)
qed

lemma run_well_formed: "well_formed st \<Longrightarrow> well_formed (run rt ops st)"
  by (induction ops arbitrary: st) (simp_all add: step_well_formed)

lemma reachable_well_formed: "well_formed (run rt ops init_world)"
  by (rule run_well_formed) (simp add: well_formed_def init_world_def)

lemma capitalized_keywords:
  "map capitalize scia_keywords =
     [''Safety'', ''Customer obsession'', ''Integrity'', ''Accountability'']"
  by (simp add: scia_keywords_def upper_char_def lower_char_def)

text \<open>On the question of the escalation scenario no classifier check answers.\<close>

lemma next_flight_unclassified:
  "\<not> truthy (analyze_greeting ascii_runtime
        (process_input ascii_runtime ''what time is the next flight''))"
  "\<not> truthy (analyze_mission_vision ascii_runtime
        (process_input ascii_runtime ''what time is the next flight''))"
  "\<not> truthy (analyze_scia_values ascii_runtime
        (process_input ascii_runtime ''what time is the next flight''))"
  by code_simp+

section \<open>Escalation\<close>

text \<open>
  What the escalation branch of \<open>respond\<close> does, when \<open>q\<close> is not a key of \<open>db\<close> and
  none of the three classifier checks answers: the answer is the same whether the
  notification goes through or raises, \<open>db\<close> holds the placeholder under \<open>q\<close>, and the
  ledger has a record for \<open>q\<close>, which is the placeholder when \<open>q\<close> had no record before
  and the notification went through.
\<close>

lemma escalation_effects:
  assumes "map_of (db st) q = None"
    and "\<not> truthy (analyze_greeting rt (process_input rt q))"
    and "\<not> truthy (analyze_mission_vision rt (process_input rt q))"
    and "\<not> truthy (analyze_scia_values rt (process_input rt q))"
  shows "fst (respond rt m q st) =
           ''I don't have an answer for that, sorry. '' @ [CHR 0xF0, CHR 0x9F, CHR 0x98, CHR 0x94]
       \<and> fst (respond rt Delivered q st) = fst (respond rt Raises q st)
       \<and> map_of (db (snd (respond rt m q st))) q =
           Some ''Forwarded to admin's email. Waiting for response.''
       \<and> has_record q (snd (respond rt m q st))
       \<and> (\<not> has_record q st \<and> m = Delivered \<longrightarrow>
            map_of (unanswered_queries (snd (respond rt m q st))) q =
              Some ''Forwarded to admin's email. Waiting for response.'')"
  by (simp add: respond_escalate [OF assms] db_add_to_db forward_unfold has_record_def
      update_conv' apology_def placeholder_def)

text \<open>
  C1. For a question that is not a key of \<open>db\<close> and that no classifier check answers,
  the claim has \<open>respond\<close> return the string
  \<open>I don't have an answer for that, sorry.\<close>, which is also what the docstring of
  \<open>RuleBasedBot\<close> says and what \<open>get_response\<close> and \<open>get_scenario_for_value\<close> use as their
  default. The code does not: on the question of the spec's escalation scenario, asked of
  a fresh bot, \<open>respond\<close> returns that sentence followed by a space and the emoji U+1F614,
  whether the notification goes through or raises. The placeholder is written and the
  ledger gets its record, as the claim says.
\<close>

theorem respond_apology_at_next_flight:
  "map_of (db init_world) ''what time is the next flight'' = None
   \<and> \<not> truthy (analyze_greeting ascii_runtime
          (process_input ascii_runtime ''what time is the next flight''))
   \<and> \<not> truthy (analyze_mission_vision ascii_runtime
          (process_input ascii_runtime ''what time is the next flight''))
   \<and> \<not> truthy (analyze_scia_values ascii_runtime
          (process_input ascii_runtime ''what time is the next flight''))
   \<and> fst (respond ascii_runtime Delivered ''what time is the next flight'' init_world) =
       ''I don't have an answer for that, sorry. '' @ [CHR 0xF0, CHR 0x9F, CHR 0x98, CHR 0x94]
   \<and> fst (respond ascii_runtime Raises ''what time is the next flight'' init_world) =
       ''I don't have an answer for that, sorry. '' @ [CHR 0xF0, CHR 0x9F, CHR 0x98, CHR 0x94]
   \<and> fst (respond ascii_runtime Delivered ''what time is the next flight'' init_world)
       \<noteq> ''I don't have an answer for that, sorry.''
   \<and> default_message = ''I don't have an answer for that, sorry.''
   \<and> map_of (db (snd (respond ascii_runtime Delivered ''what time is the next flight''
         init_world))) ''what time is the next flight'' =
       Some ''Forwarded to admin's email. Waiting for response.''
   \<and> map_of (unanswered_queries (snd (respond ascii_runtime Delivered
         ''what time is the next flight'' init_world))) ''what time is the next flight'' =
       Some ''Forwarded to admin's email. Waiting for response.''"
proof -
  have miss: "map_of (db init_world) ''what time is the next flight'' = None"
    by (simp add: init_world_def)
  have fresh: "\<not> has_record ''what time is the next flight'' init_world"
    by (simp add: has_record_def init_world_def)
  show ?thesis
    using miss fresh
      escalation_effects [OF miss next_flight_unclassified, of Delivered]
      escalation_effects [OF miss next_flight_unclassified, of Raises]
    by (simp add: next_flight_unclassified default_message_def)
qed

text \<open>
  C4. When \<open>q\<close> has no ledger record and the notification raises, the body of the \<open>try\<close>
  of \<open>forward_query_to_admin\<close> raises, the function itself returns a state (nothing
  reaches its caller), and in that state the ledger holds the forwarding error for \<open>q\<close>.
  The enclosing \<open>respond\<close> answers the apology, the same as when the notification goes
  through.
\<close>

theorem forward_failure_caught:
  assumes "\<not> has_record q st"
  shows "isl (forward_try q Raises st)
       \<and> map_of (unanswered_queries (forward_query_to_admin q Raises st)) q =
           Some ''Error forwarding to admin. Please try again.''
       \<and> (map_of (db st) q = None
            \<and> \<not> truthy (analyze_greeting rt (process_input rt q))
            \<and> \<not> truthy (analyze_mission_vision rt (process_input rt q))
            \<and> \<not> truthy (analyze_scia_values rt (process_input rt q)) \<longrightarrow>
          fst (respond rt Raises q st) = apology
          \<and> fst (respond rt Raises q st) = fst (respond rt Delivered q st)
          \<and> map_of (unanswered_queries (snd (respond rt Raises q st))) q =
              Some ''Error forwarding to admin. Please try again.'')"
  using assms
  by (auto simp: respond_escalate forward_unfold has_record_def update_conv' forward_try_def
      Let_def forward_error_def)

theorem forward_failure_caught_witness:
  "\<not> has_record ''what time is the next flight'' init_world
   \<and> isl (forward_try ''what time is the next flight'' Raises init_world)
   \<and> map_of (unanswered_queries
         (forward_query_to_admin ''what time is the next flight'' Raises init_world))
       ''what time is the next flight'' = Some ''Error forwarding to admin. Please try again.''
   \<and> fst (respond ascii_runtime Raises ''what time is the next flight'' init_world) = apology
   \<and> map_of (unanswered_queries (snd (respond ascii_runtime Raises
         ''what time is the next flight'' init_world))) ''what time is the next flight'' =
       Some ''Error forwarding to admin. Please try again.''"
proof -
  have miss: "map_of (db init_world) ''what time is the next flight'' = None"
    by (simp add: init_world_def)
  have fresh: "\<not> has_record ''what time is the next flight'' init_world"
    by (simp add: has_record_def init_world_def)
  show ?thesis
    using miss fresh next_flight_unclassified
      forward_failure_caught [OF fresh, of ascii_runtime]
    by simp
qed

text \<open>Once \<open>q\<close> is a key of \<open>db\<close>, asking it again changes nothing.\<close>

lemma run_hits:
  "map_of (db st) q = Some a \<Longrightarrow> run rt (map (Respond q) ms) st = st"
  by (induction ms) (simp_all add: respond_hit)

text \<open>
  C2 (amended). When \<open>q\<close> is not a key of \<open>db\<close>, no classifier check answers and the ledger
  has no record for \<open>q\<close>, asking \<open>q\<close> any number \<open>N \<ge> 1\<close> of times, whatever the mail
  session of each call would do, adds exactly one notification attempt, for \<open>q\<close>: the
  first call leaves the placeholder in \<open>db\<close> under \<open>q\<close>, and the later calls change
  nothing. A call of \<open>forward_query_to_admin\<close> for a question that has a ledger record
  changes nothing either.
\<close>

theorem repeated_ask_one_attempt:
  assumes "ms \<noteq> []"
    and "map_of (db st) q = None"
    and "\<not> truthy (analyze_greeting rt (process_input rt q))"
    and "\<not> truthy (analyze_mission_vision rt (process_input rt q))"
    and "\<not> truthy (analyze_scia_values rt (process_input rt q))"
    and "\<not> has_record q st"
  shows "attempts (history (run rt (map (Respond q) ms) st)) = q # attempts (history st)
       \<and> run rt (map (Respond q) ms) st = snd (respond rt (hd ms) q st)
       \<and> map_of (db (snd (respond rt (hd ms) q st))) q = Some placeholder
       \<and> (has_record q' st' \<longrightarrow> forward_query_to_admin q' m' st' = st')"
proof -
  from assms(1) obtain m ms' where ms: "ms = m # ms'" by (cases ms) auto
  let ?st1 = "forward_query_to_admin q m (add_to_db q placeholder st)"
  have first: "snd (respond rt m q st) = ?st1"
    by (simp add: respond_escalate [OF assms(2-5)])
  have entry: "map_of (db ?st1) q = Some placeholder"
    by (simp add: db_add_to_db)
  then have "run rt (map (Respond q) ms') ?st1 = ?st1"
    by (rule run_hits)
  with first ms have all: "run rt (map (Respond q) ms) st = ?st1" by simp
  have "attempts (history ?st1) = q # attempts (history st)"
    using assms(6) by (simp add: forward_unfold)
  with all first entry ms show ?thesis
    by (simp add: forward_unfold)
qed

theorem repeated_ask_one_attempt_witness:
  "[Raises, Delivered, Delivered] \<noteq> []
   \<and> map_of (db init_world) ''what time is the next flight'' = None
   \<and> \<not> has_record ''what time is the next flight'' init_world
   \<and> attempts (history (run ascii_runtime
         (map (Respond ''what time is the next flight'') [Raises, Delivered, Delivered])
         init_world)) = [''what time is the next flight'']
   \<and> run ascii_runtime
         (map (Respond ''what time is the next flight'') [Raises, Delivered, Delivered])
         init_world
       = snd (respond ascii_runtime Raises ''what time is the next flight'' init_world)"
proof -
  have ne: "[Raises, Delivered, Delivered] \<noteq> []" by simp
  have miss: "map_of (db init_world) ''what time is the next flight'' = None"
    by (simp add: init_world_def)
  have fresh: "\<not> has_record ''what time is the next flight'' init_world"
    by (simp add: has_record_def init_world_def)
  have none: "attempts (history init_world) = []"
    by (simp add: init_world_def)
  note once = repeated_ask_one_attempt [OF ne miss next_flight_unclassified fresh,
      of "[]" init_world Raises]
  from once have "attempts (history (run ascii_runtime
         (map (Respond ''what time is the next flight'') [Raises, Delivered, Delivered])
         init_world)) = [''what time is the next flight'']"
    unfolding none by (rule conjunct1)
  moreover from once have "run ascii_runtime
         (map (Respond ''what time is the next flight'') [Raises, Delivered, Delivered])
         init_world
       = snd (respond ascii_runtime Raises ''what time is the next flight'' init_world)"
    unfolding list.sel by (rule conjunct1 [OF conjunct2])
  ultimately show ?thesis
    using miss fresh ne by blast
qed

text \<open>
  C2 as stated fails: after one direct call of \<open>forward_query_to_admin\<close> on a fresh bot
  the question is in the ledger and not in \<open>db\<close>, no classifier check answers it, and
  asking it twice adds no notification attempt.
\<close>

theorem repeated_ask_counterexample:
  "map_of (db (forward_query_to_admin ''what time is the next flight'' Raises init_world))
       ''what time is the next flight'' = None
   \<and> \<not> truthy (analyze_greeting ascii_runtime
          (process_input ascii_runtime ''what time is the next flight''))
   \<and> \<not> truthy (analyze_mission_vision ascii_runtime
          (process_input ascii_runtime ''what time is the next flight''))
   \<and> \<not> truthy (analyze_scia_values ascii_runtime
          (process_input ascii_runtime ''what time is the next flight''))
   \<and> attempts (history (run ascii_runtime
         (map (Respond ''what time is the next flight'') [Delivered, Delivered])
         (forward_query_to_admin ''what time is the next flight'' Raises init_world)))
       = attempts (history
           (forward_query_to_admin ''what time is the next flight'' Raises init_world))"
proof -
  let ?q = "''what time is the next flight''"
  let ?st = "forward_query_to_admin ?q Raises init_world"
  have miss: "map_of (db ?st) ?q = None"
    by (simp add: init_world_def)
  have known: "has_record ?q (add_to_db ?q placeholder ?st)"
    by (simp add: forward_unfold has_record_def init_world_def)
  have one: "respond ascii_runtime Delivered ?q ?st = (apology, add_to_db ?q placeholder ?st)"
    using known
    by (simp add: respond_escalate [OF miss next_flight_unclassified] forward_unfold [of ?q Delivered])
  have two: "respond ascii_runtime Delivered ?q (add_to_db ?q placeholder ?st)
               = (placeholder, add_to_db ?q placeholder ?st)"
    by (rule respond_hit) (simp add: db_add_to_db)
  show ?thesis
    using miss by (simp add: next_flight_unclassified one two)
qed

section \<open>The ledger of unanswered queries\<close>

lemma has_record_forward:
  "has_record q' (forward_query_to_admin q m st) = (q' = q \<or> has_record q' st)"
  by (auto simp: forward_unfold has_record_def update_conv')

lemma tracked_forward:
  "has_record q' st = tracked q' (history st) \<Longrightarrow>
   tracked q' (history (forward_query_to_admin q m st)) = (q' = q \<or> tracked q' (history st))"
  by (auto simp: forward_unfold)

lemma step_tracked:
  assumes "has_record q st = tracked q (history st)"
  shows "has_record q (step rt x st) = tracked q (history (step rt x st))"
proof (cases x)
  case (Respond q' m)
  have fwd: "has_record q (forward_query_to_admin q' m (add_to_db q' placeholder st)) =
             tracked q (history (forward_query_to_admin q' m (add_to_db q' placeholder st)))"
    using assms by (subst tracked_forward) (simp_all add: has_record_forward)
  show ?thesis
    using assms fwd Respond by (simp add: respond_def Let_def split: option.splits)
next
  case (Forward q' m)
  with assms show ?thesis by (simp add: has_record_forward tracked_forward)
next
  case (ProvideAnswer q' a)
  with assms show ?thesis
    by (auto simp: provide_answer_def Let_def has_record_def update_conv')
next
  case (MarkResolved q')
  with assms show ?thesis
    by (auto simp: mark_resolved_def Let_def has_record_def delete_conv')
next
  case (AddToDb q' a)
  with assms show ?thesis by simp
qed

lemma run_tracked:
  "has_record q st = tracked q (history st) \<Longrightarrow>
   has_record q (run rt ops st) = tracked q (history (run rt ops st))"
  by (induction ops arbitrary: st) (simp_all add: step_tracked)

text \<open>
  C3 (amended). In every state reached from the initial one by calls of \<open>respond\<close>,
  \<open>forward_query_to_admin\<close>, \<open>provide_answer\<close>, \<open>mark_resolved\<close> and \<open>add_to_db\<close>, the
  ledger has a record for \<open>q\<close> if and only if \<open>q\<close> has been forwarded (whether the
  notification went through or raised) or given an answer by \<open>provide_answer\<close>, and has
  not been marked resolved since; each of these calls preserves this property.
\<close>

theorem ledger_tracks_history:
  "has_record q (run rt ops init_world) = tracked q (history (run rt ops init_world))
   \<and> (has_record q st = tracked q (history st) \<longrightarrow>
        has_record q (step rt x st) = tracked q (history (step rt x st)))"
proof -
  have "has_record q init_world = tracked q (history init_world)"
    by (simp add: has_record_def init_world_def)
  then have "has_record q (run rt ops init_world) = tracked q (history (run rt ops init_world))"
    by (rule run_tracked)
  then show ?thesis by (simp add: step_tracked)
qed

theorem ledger_tracks_history_witness:
  "has_record ''baggage'' init_world = tracked ''baggage'' (history init_world)
   \<and> has_record ''baggage'' (step ascii_runtime (ProvideAnswer ''baggage'' ''23 kg'') init_world)
   \<and> tracked ''baggage''
        (history (step ascii_runtime (ProvideAnswer ''baggage'' ''23 kg'') init_world))"
proof -
  have start: "has_record ''baggage'' init_world = tracked ''baggage'' (history init_world)"
    by (simp add: has_record_def init_world_def)
  have "has_record ''baggage'' (step ascii_runtime (ProvideAnswer ''baggage'' ''23 kg'') init_world)"
    by (simp add: has_record_def provide_answer_def Let_def update_conv')
  then show ?thesis
    using start
      ledger_tracks_history [of "''baggage''" ascii_runtime "[]" init_world
        "ProvideAnswer ''baggage'' ''23 kg''"]
    by simp
qed

text \<open>
  C3 as stated fails: \<open>provide_answer\<close> on a fresh bot gives the ledger a record for a
  question that was never forwarded.
\<close>

theorem ledger_invariant_counterexample:
  "has_record ''baggage'' init_world = outstanding ''baggage'' (history init_world)
   \<and> has_record ''baggage'' (provide_answer ''baggage'' ''23 kg'' init_world)
   \<and> \<not> outstanding ''baggage'' (history (provide_answer ''baggage'' ''23 kg'' init_world))
   \<and> attempts (history (provide_answer ''baggage'' ''23 kg'' init_world)) = []"
  by (simp add: has_record_def init_world_def provide_answer_def add_to_db_def Let_def)

section \<open>Answers from the database\<close>

lemma step_keeps_entry:
  assumes "map_of (db st) q = Some a" and "\<not> overwrites q x"
  shows "map_of (db (step rt x st)) q = Some a"
proof (cases x)
  case (Respond q' m)
  show ?thesis
  proof (cases "map_of (db st) q'")
    case None
    with assms have "q' \<noteq> q" by auto
    with None assms Respond show ?thesis
      by (simp add: respond_def Let_def db_add_to_db)
  next
    case (Some b)
    with assms Respond show ?thesis by (simp add: respond_hit)
  qed
next
  case (Forward q' m)
  with assms show ?thesis by simp
next
  case (ProvideAnswer q' b)
  with assms show ?thesis by (simp add: db_provide_answer)
next
  case (MarkResolved q')
  with assms show ?thesis by simp
next
  case (AddToDb q' b)
  with assms show ?thesis by (simp add: db_add_to_db)
qed

lemma run_keeps_entry:
  "map_of (db st) q = Some a \<Longrightarrow> \<forall>x\<in>set ops. \<not> overwrites q x \<Longrightarrow>
   map_of (db (run rt ops st)) q = Some a"
  by (induction ops arbitrary: st) (simp_all add: step_keeps_entry)

text \<open>
  C5. After \<open>add_to_db q a\<close>, and after any further calls none of which writes the entry of
  \<open>q\<close> again (\<open>add_to_db\<close> or \<open>provide_answer\<close> for \<open>q\<close>), \<open>respond q\<close> returns exactly \<open>a\<close>
  and leaves the whole state as it was: the database, the ledger and the history.
\<close>

theorem exact_match_until_overwritten:
  assumes "\<forall>x\<in>set ops. \<not> overwrites q x"
  shows "respond rt m q (run rt ops (add_to_db q a st)) = (a, run rt ops (add_to_db q a st))"
  by (rule respond_hit, rule run_keeps_entry) (simp_all add: db_add_to_db assms)

theorem exact_match_until_overwritten_witness:
  "\<not> overwrites ''baggage'' (Respond ''baggage'' Delivered)
   \<and> \<not> overwrites ''baggage'' (ProvideAnswer ''lounge'' ''gate 4'')
   \<and> fst (respond ascii_runtime Raises ''baggage''
        (run ascii_runtime
          [Respond ''baggage'' Delivered, Respond ''lounge'' Raises, MarkResolved ''baggage'',
           ProvideAnswer ''lounge'' ''gate 4'', Forward ''baggage'' Delivered]
          (add_to_db ''baggage'' ''23 kg'' init_world))) = ''23 kg''"
proof -
  have h: "\<forall>x\<in>set [Respond ''baggage'' Delivered, Respond ''lounge'' Raises,
                    MarkResolved ''baggage'', ProvideAnswer ''lounge'' ''gate 4'',
                    Forward ''baggage'' Delivered]. \<not> overwrites ''baggage'' x"
    by simp
  show ?thesis
    using h exact_match_until_overwritten [OF h, of ascii_runtime Raises "''23 kg''" init_world]
    by simp
qed

text \<open>
  C6. After \<open>provide_answer q a\<close>, \<open>respond q\<close> returns \<open>a\<close> (for \<open>a\<close> the string
  \<open>real answer\<close> as for any other), also when \<open>q\<close> has been marked resolved in between;
  and after \<open>mark_resolved q\<close> the list of \<open>get_unanswered_queries\<close> does not contain \<open>q\<close>.
\<close>

theorem resolution_round_trip:
  "fst (respond rt m q (provide_answer q ''real answer'' st)) = ''real answer''
   \<and> fst (respond rt m q (provide_answer q a st)) = a
   \<and> fst (respond rt m q (mark_resolved q (provide_answer q a st))) = a
   \<and> q \<notin> set (get_unanswered_queries (mark_resolved q st))"
  by (simp add: respond_hit db_provide_answer keys_mark_resolved)

theorem resolution_round_trip_witness:
  "fst (respond ascii_runtime Raises ''baggage''
          (provide_answer ''baggage'' ''real answer'' init_world)) = ''real answer''
   \<and> get_unanswered_queries (provide_answer ''baggage'' ''real answer'' init_world) = [''baggage'']
   \<and> ''baggage'' \<notin> set (get_unanswered_queries
          (mark_resolved ''baggage'' (provide_answer ''baggage'' ''real answer'' init_world)))"
proof -
  have "get_unanswered_queries (provide_answer ''baggage'' ''real answer'' init_world) = [''baggage'']"
    by (simp add: get_unanswered_queries_def provide_answer_def add_to_db_def Let_def init_world_def)
  then show ?thesis
    using resolution_round_trip [of ascii_runtime Raises "''baggage''" init_world "''real answer''"]
      resolution_round_trip [of ascii_runtime Raises "''baggage''"
        "provide_answer ''baggage'' ''real answer'' init_world" "''real answer''"]
    by simp
qed

section \<open>Answers from the classifier\<close>

text \<open>
  C7. When \<open>q\<close> is not a key of \<open>db\<close> and one of the three classifier checks answers,
  \<open>respond\<close> returns the answer of the first check that does (greeting, then mission and
  vision, then values) and leaves the state as it was: nothing is written to \<open>db\<close> or to
  the ledger, and the history gains no notification attempt.
\<close>

theorem intent_answer_frame:
  assumes "map_of (db st) q = None"
    and "truthy (analyze_greeting rt (process_input rt q))
         \<or> truthy (analyze_mission_vision rt (process_input rt q))
         \<or> truthy (analyze_scia_values rt (process_input rt q))"
  shows "snd (respond rt m q st) = st \<and>
         fst (respond rt m q st) =
           (if truthy (analyze_greeting rt (process_input rt q))
            then the (analyze_greeting rt (process_input rt q))
            else if truthy (analyze_mission_vision rt (process_input rt q))
            then the (analyze_mission_vision rt (process_input rt q))
            else the (analyze_scia_values rt (process_input rt q)))"
  using assms by (auto simp: respond_def Let_def)

lemma integrity_classified:
  "\<not> truthy (analyze_greeting ascii_runtime
        (process_input ascii_runtime ''tell me about Integrity''))"
  "\<not> truthy (analyze_mission_vision ascii_runtime
        (process_input ascii_runtime ''tell me about Integrity''))"
  "analyze_scia_values ascii_runtime (process_input ascii_runtime ''tell me about Integrity'') =
     Some ''Integrity:  We shall be ethical and trustworthy in all our engagements and we shall treat each person with respect.''"
  by code_simp+

theorem intent_answer_frame_witness:
  "map_of (db init_world) ''tell me about Integrity'' = None
   \<and> truthy (analyze_scia_values ascii_runtime
        (process_input ascii_runtime ''tell me about Integrity''))
   \<and> respond ascii_runtime Raises ''tell me about Integrity'' init_world =
       (''Integrity:  We shall be ethical and trustworthy in all our engagements and we shall treat each person with respect.'',
        init_world)"
proof -
  have miss: "map_of (db init_world) ''tell me about Integrity'' = None"
    by (simp add: init_world_def)
  have hit: "truthy (analyze_greeting ascii_runtime
                 (process_input ascii_runtime ''tell me about Integrity''))
             \<or> truthy (analyze_mission_vision ascii_runtime
                 (process_input ascii_runtime ''tell me about Integrity''))
             \<or> truthy (analyze_scia_values ascii_runtime
                 (process_input ascii_runtime ''tell me about Integrity''))"
    by (simp add: integrity_classified)
  show ?thesis
    using miss intent_answer_frame [OF miss hit, of Raises]
    by (simp add: integrity_classified prod_eq_iff)
qed

text \<open>
  C8. When the lower-cased text of the document contains \<open>values\<close>, \<open>analyze_scia_values\<close>
  returns the four value names, capitalized, in the order of the source and joined by a
  comma and a space, whether or not the text also contains one of the value names.
\<close>

theorem values_enumeration:
  "sublist ''values'' (str_lower rt (doc_text d)) \<Longrightarrow>
   analyze_scia_values rt d = Some ''Safety, Customer obsession, Integrity, Accountability''"
  by (simp add: analyze_scia_values_def values_keyword_def capitalized_keywords)

theorem values_enumeration_witness:
  "sublist ''values'' (str_lower ascii_runtime
       (doc_text (process_input ascii_runtime ''what are scia values'')))
   \<and> analyze_scia_values ascii_runtime (process_input ascii_runtime ''what are scia values'') =
       Some ''Safety, Customer obsession, Integrity, Accountability''
   \<and> fst (respond ascii_runtime Raises ''what are scia values'' init_world) =
       ''Safety, Customer obsession, Integrity, Accountability''
   \<and> sublist ''integrity'' (str_lower ascii_runtime
       (doc_text (process_input ascii_runtime ''Integrity and other VALUES'')))
   \<and> analyze_scia_values ascii_runtime (process_input ascii_runtime ''Integrity and other VALUES'') =
       Some ''Safety, Customer obsession, Integrity, Accountability''"
proof -
  have h1: "sublist ''values'' (str_lower ascii_runtime
               (doc_text (process_input ascii_runtime ''what are scia values'')))"
    by code_simp
  have h2: "sublist ''values'' (str_lower ascii_runtime
               (doc_text (process_input ascii_runtime ''Integrity and other VALUES'')))"
    by code_simp
  have h3: "sublist ''integrity'' (str_lower ascii_runtime
               (doc_text (process_input ascii_runtime ''Integrity and other VALUES'')))"
    by code_simp
  have h4: "fst (respond ascii_runtime Raises ''what are scia values'' init_world) =
              ''Safety, Customer obsession, Integrity, Accountability''"
    by code_simp
  show ?thesis
    using h1 h3 h4 values_enumeration [OF h1] values_enumeration [OF h2] by simp
qed

text \<open>
  C10. When the first token of the document is not a greeting word and some token is
  \<open>thanks\<close> or \<open>thank\<close> (both case-insensitively), \<open>analyze_greeting\<close> returns
  \<open>You're welcome!\<close>, whatever the other tokens are, greeting words included.
\<close>

theorem gratitude_before_later_greeting:
  "doc_tokens d = t # ts \<Longrightarrow> str_lower rt t \<notin> set [''hi'', ''hello'', ''hey''] \<Longrightarrow>
   \<exists>x\<in>set (doc_tokens d). str_lower rt x = ''thanks'' \<or> str_lower rt x = ''thank'' \<Longrightarrow>
   analyze_greeting rt d = Some ''You're welcome!''"
  by (auto simp: analyze_greeting_def list_ex_iff gratitude_words_def greetings_def)

theorem gratitude_before_later_greeting_witness:
  "doc_tokens (process_input ascii_runtime ''Thanks and hello'') = [''Thanks'', ''and'', ''hello'']
   \<and> str_lower ascii_runtime ''Thanks'' \<notin> set [''hi'', ''hello'', ''hey'']
   \<and> str_lower ascii_runtime ''hello'' \<in> set [''hi'', ''hello'', ''hey'']
   \<and> analyze_greeting ascii_runtime (process_input ascii_runtime ''Thanks and hello'') =
       Some ''You're welcome!''"
proof -
  have toks: "doc_tokens (process_input ascii_runtime ''Thanks and hello'') =
                [''Thanks'', ''and'', ''hello'']"
    by code_simp
  have first: "str_lower ascii_runtime ''Thanks'' \<notin> set [''hi'', ''hello'', ''hey'']"
    by code_simp
  have later: "str_lower ascii_runtime ''hello'' \<in> set [''hi'', ''hello'', ''hey'']"
    by code_simp
  have low: "str_lower ascii_runtime ''Thanks'' = ''thanks''"
    by code_simp
  have some: "\<exists>x\<in>set (doc_tokens (process_input ascii_runtime ''Thanks and hello'')).
                str_lower ascii_runtime x = ''thanks'' \<or> str_lower ascii_runtime x = ''thank''"
    unfolding toks using low by simp
  show ?thesis
    using toks first later gratitude_before_later_greeting [OF toks first some] by simp
qed

section \<open>The HTTP view\<close>

lemma respond_value_string:
  "respond_value rt m (JStr s) st =
     (if map_of (db st) s = None \<and> nlp_raises rt s \<noteq> None
      then Inl (the (nlp_raises rt s)) else Inr (respond rt m s st))"
  by (auto simp: respond_call_def split: option.splits)

text \<open>
  C9. The view answers status 400 with the error \<open>User input is required\<close> exactly when
  the request is a POST whose body is a JSON object in which \<open>user_input\<close> is absent or
  null. Any other value of the field, the empty string included, goes to \<open>respond\<close>, and
  the view answers what that call gives: for a string that is a key of \<open>db\<close> or that the
  pipeline takes, status 200 with the answer of \<open>respond\<close>; for a string that is not a key
  of \<open>db\<close> and that the pipeline refuses, status 500 with the exception, the state
  unchanged.
\<close>

theorem bot_view_input_required:
  "(fst (bot_view rt m req st) = JsonResponse (error ''User input is required'') 400
      \<longleftrightarrow> req_method req = ''POST''
          \<and> (\<exists>data. req_body req = Some (JObj data)
                \<and> (map_of data ''user_input'' = None \<or> map_of data ''user_input'' = Some JNull)))
   \<and> (req_method req = ''POST'' \<and> req_body req = Some (JObj data)
        \<and> map_of data ''user_input'' = Some v \<and> v \<noteq> JNull \<longrightarrow>
      bot_view rt m req st =
        (case respond_value rt m v st of
           Inl e \<Rightarrow> (JsonResponse (error_of e) 500, st)
         | Inr (r, st') \<Rightarrow> (JsonResponse (bot_response r) 200, st')))
   \<and> (req_method req = ''POST'' \<and> req_body req = Some (JObj data)
        \<and> map_of data ''user_input'' = Some (JStr s)
        \<and> (map_of (db st) s \<noteq> None \<or> nlp_raises rt s = None) \<longrightarrow>
      bot_view rt m req st =
        (JsonResponse (bot_response (fst (respond rt m s st))) 200, snd (respond rt m s st)))
   \<and> (req_method req = ''POST'' \<and> req_body req = Some (JObj data)
        \<and> map_of data ''user_input'' = Some (JStr s)
        \<and> map_of (db st) s = None \<and> nlp_raises rt s = Some x \<longrightarrow>
      bot_view rt m req st = (JsonResponse (error_of x) 500, st))"
proof -
  have required:
    "fst (bot_view rt m req st) = JsonResponse (error ''User input is required'') 400
      \<longleftrightarrow> req_method req = ''POST''
          \<and> (\<exists>data. req_body req = Some (JObj data)
                \<and> (map_of data ''user_input'' = None \<or> map_of data ''user_input'' = Some JNull))"
    by (auto simp: bot_view_def bot_view_try_def
        split: option.splits json.splits sum.splits prod.splits)
  have passed:
    "req_method req = ''POST'' \<and> req_body req = Some (JObj data)
        \<and> map_of data ''user_input'' = Some v \<and> v \<noteq> JNull \<longrightarrow>
      bot_view rt m req st =
        (case respond_value rt m v st of
           Inl e \<Rightarrow> (JsonResponse (error_of e) 500, st)
         | Inr (r, st') \<Rightarrow> (JsonResponse (bot_response r) 200, st'))"
    by (auto simp: bot_view_def bot_view_try_def
        split: option.splits json.splits sum.splits prod.splits)
  have taken:
    "req_method req = ''POST'' \<and> req_body req = Some (JObj data)
        \<and> map_of data ''user_input'' = Some (JStr s)
        \<and> (map_of (db st) s \<noteq> None \<or> nlp_raises rt s = None) \<longrightarrow>
      bot_view rt m req st =
        (JsonResponse (bot_response (fst (respond rt m s st))) 200, snd (respond rt m s st))"
    by (auto simp: bot_view_def bot_view_try_def respond_call_def split: prod.splits)
  have refused:
    "req_method req = ''POST'' \<and> req_body req = Some (JObj data)
        \<and> map_of data ''user_input'' = Some (JStr s)
        \<and> map_of (db st) s = None \<and> nlp_raises rt s = Some x \<longrightarrow>
      bot_view rt m req st = (JsonResponse (error_of x) 500, st)"
    by (auto simp: bot_view_def bot_view_try_def respond_call_def)
  from required passed taken refused show ?thesis by blast
qed

lemma empty_unclassified:
  "\<not> truthy (analyze_greeting ascii_runtime (process_input ascii_runtime ''''))"
  "\<not> truthy (analyze_mission_vision ascii_runtime (process_input ascii_runtime ''''))"
  "\<not> truthy (analyze_scia_values ascii_runtime (process_input ascii_runtime ''''))"
  by code_simp+

theorem bot_view_input_required_witness:
  "nlp_raises ascii_runtime '''' = None
   \<and> fst (bot_view ascii_runtime Raises
          \<lparr>req_method = ''POST'', req_body = Some (JObj [(''user_input'', JStr '''')])\<rparr>
          init_world) = JsonResponse (bot_response apology) 200
   \<and> fst (bot_view ascii_runtime Raises
          \<lparr>req_method = ''POST'', req_body = Some (JObj [(''user_input'', JNull)])\<rparr>
          init_world) = JsonResponse (error ''User input is required'') 400
   \<and> fst (bot_view ascii_runtime Raises
          \<lparr>req_method = ''POST'', req_body = Some (JObj [(''input'', JStr ''hi'')])\<rparr>
          init_world) = JsonResponse (error ''User input is required'') 400
   \<and> bot_view (ascii_runtime\<lparr>nlp_raises := (\<lambda>s. Some ValueError)\<rparr>) Raises
          \<lparr>req_method = ''POST'', req_body = Some (JObj [(''user_input'', JStr ''hi'')])\<rparr>
          init_world = (JsonResponse (error_of ValueError) 500, init_world)"
proof -
  have miss: "map_of (db init_world) '''' = None"
    by (simp add: init_world_def)
  have miss': "map_of (db init_world) ''hi'' = None"
    by (simp add: init_world_def)
  have taken: "nlp_raises ascii_runtime '''' = None"
    by (simp add: ascii_runtime_def)
  have ans: "fst (respond ascii_runtime Raises '''' init_world) = apology"
    by (simp add: respond_escalate [OF miss empty_unclassified])
  show ?thesis
    using ans taken miss miss'
      bot_view_input_required [of ascii_runtime Raises
        "\<lparr>req_method = ''POST'', req_body = Some (JObj [(''user_input'', JStr '''')])\<rparr>"
        init_world "[(''user_input'', JStr '''')]" JNull "[]" ValueError]
      bot_view_input_required [of ascii_runtime Raises
        "\<lparr>req_method = ''POST'', req_body = Some (JObj [(''user_input'', JNull)])\<rparr>"
        init_world "[]" JNull "[]" ValueError]
      bot_view_input_required [of ascii_runtime Raises
        "\<lparr>req_method = ''POST'', req_body = Some (JObj [(''input'', JStr ''hi'')])\<rparr>"
        init_world "[]" JNull "[]" ValueError]
      bot_view_input_required [of "ascii_runtime\<lparr>nlp_raises := (\<lambda>s. Some ValueError)\<rparr>" Raises
        "\<lparr>req_method = ''POST'', req_body = Some (JObj [(''user_input'', JStr ''hi'')])\<rparr>"
        init_world "[(''user_input'', JStr ''hi'')]" JNull "''hi''" ValueError]
    by simp
qed

end
